theory Spec2Isabelle
  imports Main "HOL-Library.Sublist" "HOL-Library.AList"
begin

section \<open>Strings\<close>

text \<open>
  Strings are \<^typ>\<open>string\<close>. The string methods of the platform that the form
  component calls are written out for ASCII text: \<open>toLowerCase\<close> maps \<open>A\<close>..\<open>Z\<close>
  to \<open>a\<close>..\<open>z\<close> and leaves every other character alone, \<open>includes\<close> is the
  substring test, \<open>trim\<close> strips the ASCII white space.
\<close>

definition lower_char :: "char \<Rightarrow> char" where
  "lower_char c =
     (case map_of (zip ''ABCDEFGHIJKLMNOPQRSTUVWXYZ'' ''abcdefghijklmnopqrstuvwxyz'') c of
        None \<Rightarrow> c
      | Some l \<Rightarrow> l)"

definition toLowerCase :: "string \<Rightarrow> string" where
  "toLowerCase s = map lower_char s"

fun str_includes :: "string \<Rightarrow> string \<Rightarrow> bool" where
  "str_includes [] t = (t = [])"
| "str_includes (c # cs) t = (prefix t (c # cs) \<or> str_includes cs t)"

definition is_space :: "char \<Rightarrow> bool" where
  "is_space c = (c \<in> set [CHR '' '', CHR 0x09, CHR 0x0A, CHR 0x0B, CHR 0x0C, CHR 0x0D])"

definition trim :: "string \<Rightarrow> string" where
  "trim s = rev (dropWhile is_space (rev (dropWhile is_space s)))"

text \<open>\<open>s.split(sep)\<close> for a separator \<open>c0 # sep\<close> (it is never empty here).\<close>

fun split_aux :: "char \<Rightarrow> string \<Rightarrow> string \<Rightarrow> string \<Rightarrow> string list" where
  "split_aux c0 sep acc [] = [rev acc]"
| "split_aux c0 sep acc (c # cs) =
     (if c = c0 \<and> prefix sep cs
      then rev acc # split_aux c0 sep [] (drop (length sep) cs)
      else split_aux c0 sep (c # acc) cs)"

definition split_comma_space :: "string \<Rightarrow> string list" where
  "split_comma_space s = split_aux (CHR '','') '' '' [] s"

fun join :: "string \<Rightarrow> string list \<Rightarrow> string" where
  "join sep [] = []"
| "join sep [x] = x"
| "join sep (x # y # ys) = x @ sep @ join sep (y # ys)"

text \<open>\<open>s || ''\<close> for an optional string \<open>s\<close>: \<open>undefined\<close> and \<open>''\<close> are falsy.\<close>

definition or_empty :: "string option \<Rightarrow> string" where
  "or_empty s = (case s of None \<Rightarrow> [] | Some v \<Rightarrow> v)"

section \<open>Jobs and question configurations\<close>

text \<open>
  Modelled from the spec: the type \<open>JobOpening\<close> is imported from the job catalogue,
  which is not among the sources. The component reads \<open>id\<close>, \<open>title\<close>, \<open>department\<close>
  and \<open>type\<close>, the last three through \<open>?.\<close>, so they may be absent.
\<close>

record JobOpening =
  job_id :: string
  job_title :: "string option"
  job_department :: "string option"
  job_type :: "string option"

datatype question_type = Text | Checkbox | Radio | Rating | Textarea

record scale_labels =
  label_min :: string
  label_max :: string

record rating_scale =
  scale_min :: int
  scale_max :: int
  labels :: "scale_labels option"

record QuestionConfig =
  question :: string
  qtype :: question_type
  options :: "string list option"
  scale :: "rating_scale option"

definition plain :: "string \<Rightarrow> question_type \<Rightarrow> QuestionConfig" where
  "plain q t = \<lparr>question = q, qtype = t, options = None, scale = None\<rparr>"

definition choice :: "string \<Rightarrow> question_type \<Rightarrow> string list \<Rightarrow> QuestionConfig" where
  "choice q t os = \<lparr>question = q, qtype = t, options = Some os, scale = None\<rparr>"

definition rating :: "string \<Rightarrow> int \<Rightarrow> int \<Rightarrow> scale_labels option \<Rightarrow> QuestionConfig" where
  "rating q lo hi ls =
     \<lparr>question = q, qtype = Rating, options = None,
      scale = Some \<lparr>scale_min = lo, scale_max = hi, labels = ls\<rparr>\<rparr>"


section \<open>The question selector\<close>

text \<open>The literal question lists of \<open>getJobSpecificQuestions\<close>, in source order.\<close>

definition videographerEditorQuestions :: "QuestionConfig list" where
  "videographerEditorQuestions =
    [choice ''Proficiency at handling DSLR Gimbal:'' Radio
       [''Professional'', ''Limited Experience'', ''No Experience''],
     rating ''Rate yourself on your skill to setup and operate a DSLR Gimbal'' 1 10 None,
     plain ''What are the various stages in shooting a product before it goes for grading? Explain briefly.'' Textarea,
     plain ''Please share your work links for reference'' Textarea,
     choice ''Can you edit videos?'' Radio [''Yes'', ''No''],
     choice ''Which software's can you edit on? Mention below'' Radio
       [''FCP X'', ''Premiere Pro'', ''FCP 7'', ''Premiere Rush''],
     rating ''How well can you colour grade on a scale of 1-10?'' 1 10
       (Some \<lparr>label_min = ''Worst'', label_max = ''Best''\<rparr>),
     rating ''How well can you balance music on a scale of 1-10?'' 1 10 None,
     rating ''How well can you select music for a video on a scale of 1-10?'' 1 10 None,
     choice ''Can you animate as well?'' Radio [''Yes'', ''No'']]"

definition contentWriterQuestions :: "QuestionConfig list" where
  "contentWriterQuestions =
    [plain ''What do you enjoy the most about content writing?'' Text,
     plain ''What all kind of content have you written before?'' Textarea,
     plain ''How do you integrate SEO into your content?'' Textarea]"

definition socialMediaQuestions :: "QuestionConfig list" where
  "socialMediaQuestions =
    [choice ''Will you be open to work as an intern if you don't have any experience?'' Radio
       [''Yes'', ''No''],
     choice ''Have you done any courses on social media with certification?'' Radio
       [''Yes'', ''No'', ''Maybe''],
     choice ''Can you edit photos and videos on a phone?'' Checkbox [''Yes'', ''No''],
     rating ''How well do you understand Facebook & Instagram when it comes to business tools?''
       1 10 None,
     rating ''How many years of relevant experience do you have in Social Media?'' 1 10 None]"

definition mediaSalesQuestions :: "QuestionConfig list" where
  "mediaSalesQuestions =
    [plain ''Which companies have you worked before?'' Textarea,
     choice ''Have you built concepts for automotive products?'' Radio [''Yes'', ''No''],
     plain ''Which all car or related brands are your clientele?'' Textarea,
     rating ''What is your understanding about digital and videos on a scale of 1-5?'' 1 5 None]"

definition internshipQuestions :: "QuestionConfig list" where
  "internshipQuestions =
    [plain ''Are you currently studying?'' Text,
     plain ''Can you dedicate 6 months for full time work?'' Text,
     plain ''We can offer Rs 8000 stipend per month - if ok then we proceed with your application'' Text]"

definition commonQuestions :: "QuestionConfig list" where
  "commonQuestions =
    [plain ''What interests you most about working in the automotive industry?'' Textarea,
     plain ''How do you stay updated with the latest automotive trends and technologies?'' Textarea]"

text \<open>The own properties of the object literal \<open>departmentQuestions\<close>, in source order.\<close>

definition departmentQuestions :: "(string \<times> QuestionConfig list) list" where
  "departmentQuestions =
    [(''production'', commonQuestions @
       [plain ''What video production tools and software are you proficient in?'' Textarea,
        plain ''Describe your experience with automotive video content creation.'' Textarea,
        plain ''How would you handle filming in challenging automotive environments?'' Textarea]),
     (''consultancy'', commonQuestions @
       [plain ''What's your experience with automotive consulting or advisory services?'' Textarea,
        plain ''How do you approach client relationship management?'' Textarea,
        plain ''Share an example of a complex automotive problem you've solved.'' Textarea]),
     (''backend'', commonQuestions @
       [plain ''What programming languages and frameworks do you specialize in?'' Textarea,
        plain ''How would you design a system to handle high-traffic automotive content?'' Textarea,
        plain ''Describe your experience with database optimization for media-heavy applications.'' Textarea]),
     (''content'', commonQuestions @
       [plain ''What's your writing style when it comes to automotive content?'' Textarea,
        plain ''How do you research and fact-check automotive information?'' Textarea,
        plain ''Share examples of automotive content you've created that performed well.'' Textarea]),
     (''marketing'', commonQuestions @
       [plain ''How would you market MotorOctane to reach more car enthusiasts?'' Textarea,
        plain ''What social media strategies work best for automotive content?'' Textarea,
        plain ''Describe a successful automotive marketing campaign you admire.'' Textarea])]"

text \<open>
  \<open>departmentQuestions[department]\<close> is a property read on an ordinary object, so a key
  that is not an own property is looked up on \<open>Object.prototype\<close>. What the read can
  yield is a question list, a function inherited from the prototype (with its name and
  its \<open>length\<close>), the prototype itself (the \<open>__proto__\<close> accessor), or \<open>undefined\<close>
  (\<open>None\<close>).
\<close>

datatype js_value =
    QuestionArray "QuestionConfig list"
  | PrototypeFunction string nat
  | ObjectPrototype

definition object_prototype_functions :: "(string \<times> nat) list" where
  "object_prototype_functions =
    [(''constructor'', 1), (''hasOwnProperty'', 1), (''isPrototypeOf'', 1),
     (''propertyIsEnumerable'', 1), (''toLocaleString'', 0), (''toString'', 0),
     (''valueOf'', 0), (''__defineGetter__'', 2), (''__defineSetter__'', 2),
     (''__lookupGetter__'', 1), (''__lookupSetter__'', 1)]"

definition get_property :: "(string \<times> QuestionConfig list) list \<Rightarrow> string \<Rightarrow> js_value option" where
  "get_property obj key =
     (case map_of obj key of
        Some qs \<Rightarrow> Some (QuestionArray qs)
      | None \<Rightarrow>
          if key = ''__proto__'' then Some ObjectPrototype
          else map_option (PrototypeFunction key) (map_of object_prototype_functions key))"

text \<open>
  The selector. Each branch returns its literal list; the last line is
  \<open>departmentQuestions[department] || commonQuestions\<close>, where every value the read can
  yield is truthy and \<open>undefined\<close> falls through to the common questions.
\<close>

definition getJobSpecificQuestions :: "JobOpening \<Rightarrow> js_value" where
  "getJobSpecificQuestions job =
     (let department = or_empty (map_option toLowerCase (job_department job));
          jobType = or_empty (map_option toLowerCase (job_type job));
          title = or_empty (map_option toLowerCase (job_title job))
      in if str_includes title ''videographer'' \<or> str_includes title ''video editor'' \<or>
            str_includes title ''video'' \<or> str_includes title ''editor''
         then QuestionArray videographerEditorQuestions
         else if str_includes title ''content writer'' \<or> str_includes title ''writer'' \<or>
            (str_includes title ''content'' \<and> str_includes title ''writer'')
         then QuestionArray contentWriterQuestions
         else if str_includes title ''social media'' \<or> str_includes title ''content creation'' \<or>
            str_includes title ''social'' \<or> str_includes title ''content''
         then QuestionArray socialMediaQuestions
         else if str_includes title ''media sales'' \<or> str_includes (toLowerCase title) ''sales''
         then QuestionArray mediaSalesQuestions
         else if str_includes jobType ''internship'' \<or> str_includes title ''internship''
         then QuestionArray internshipQuestions
         else (case get_property departmentQuestions department of
                 Some v \<Rightarrow> v
               | None \<Rightarrow> QuestionArray commonQuestions))"

text \<open>
  \<open>jobSpecificQuestions.length > 0\<close>: an array has its length, a function its arity,
  and the prototype object has no \<open>length\<close>, so the comparison is \<open>undefined > 0\<close>,
  which is false.
\<close>

definition js_length :: "js_value \<Rightarrow> nat option" where
  "js_length v =
     (case v of
        QuestionArray qs \<Rightarrow> Some (length qs)
      | PrototypeFunction name n \<Rightarrow> Some n
      | ObjectPrototype \<Rightarrow> None)"

definition isStepRequired :: "js_value \<Rightarrow> bool" where
  "isStepRequired jobSpecificQuestions =
     (case js_length jobSpecificQuestions of None \<Rightarrow> False | Some n \<Rightarrow> n > 0)"

text \<open>
  \<open>isInternship\<close> reads type and title through \<open>?.\<close> with no default; an absent one
  makes its disjunct falsy, as the empty string does here.
\<close>

definition isInternship :: "JobOpening \<Rightarrow> bool" where
  "isInternship job =
     (str_includes (or_empty (map_option toLowerCase (job_type job))) ''internship'' \<or>
      str_includes (or_empty (map_option toLowerCase (job_title job))) ''internship'')"


section \<open>The application form: data\<close>

record File =
  file_name :: string

datatype travel_answer = TravelYes | TravelNo

definition travel_string :: "travel_answer \<Rightarrow> string" where
  "travel_string a = (case a of TravelYes \<Rightarrow> ''yes'' | TravelNo \<Rightarrow> ''no'')"

text \<open>\<open>BasicInfoData\<close> and \<open>JobSpecificData\<close>: what the two schemas produce.\<close>

record BasicInfoData =
  firstName :: string
  lastName :: string
  email :: string
  phone :: string
  cv :: "File option"
  canTravelToNaviMumbai :: travel_answer
  currentSalary :: "string option"
  expectedSalary :: "string option"
  whyMotorOctane :: string

record JobSpecificData =
  questions :: "(string \<times> string option) list"

text \<open>
  The values held by the step-1 form. The file input is not registered with the form
  (it calls \<open>handleFileUpload\<close>), so the form's \<open>cv\<close> is always \<open>undefined\<close>.
\<close>

record BasicFormValues =
  firstName_field :: string
  lastName_field :: string
  email_field :: string
  phone_field :: string
  canTravelToNaviMumbai_field :: "travel_answer option"
  currentSalary_field :: "string option"
  expectedSalary_field :: "string option"
  whyMotorOctane_field :: string

definition basicForm_defaultValues :: BasicFormValues where
  "basicForm_defaultValues =
     \<lparr>firstName_field = [], lastName_field = [], email_field = [], phone_field = [],
      canTravelToNaviMumbai_field = None, currentSalary_field = Some [],
      expectedSalary_field = Some [], whyMotorOctane_field = []\<rparr>"

text \<open>
  \<open>jobSpecificQuestions.reduce(...)\<close>: every question text is mapped to \<open>''\<close>. A value
  that is not an array has no \<open>reduce\<close>, and the call throws a \<open>TypeError\<close>.
\<close>

datatype render_error = ReduceIsNotAFunction

definition questionDefaults :: "QuestionConfig list \<Rightarrow> (string \<times> string option) list" where
  "questionDefaults qs = foldl (\<lambda>acc q. AList.update (question q) (Some []) acc) [] qs"

definition jobSpecificForm_defaultValues ::
  "js_value \<Rightarrow> render_error + (string \<times> string option) list" where
  "jobSpecificForm_defaultValues jobSpecificQuestions =
     (case jobSpecificQuestions of
        QuestionArray qs \<Rightarrow> Inr (questionDefaults qs)
      | _ \<Rightarrow> Inl ReduceIsNotAFunction)"

section \<open>The two schemas\<close>

text \<open>
  A schema returns the issues it finds, as pairs of a field path and a message, or the
  parsed data. The pattern behind \<open>z.string().email()\<close> belongs to the validation
  library; it is the parameter \<open>is_email\<close>.
\<close>

definition z_string_min :: "nat \<Rightarrow> string \<Rightarrow> string \<Rightarrow> string \<Rightarrow> (string \<times> string) list" where
  "z_string_min n message path v = (if length v < n then [(path, message)] else [])"

definition z_string_email :: "(string \<Rightarrow> bool) \<Rightarrow> string \<Rightarrow> string \<Rightarrow> string \<Rightarrow> (string \<times> string) list" where
  "z_string_email is_email message path v = (if is_email v then [] else [(path, message)])"

definition z_string_optional :: "string \<Rightarrow> string option \<Rightarrow> (string \<times> string) list" where
  "z_string_optional path v = (case v of None \<Rightarrow> [] | Some text \<Rightarrow> [])"

definition basicInfoSchema ::
  "(string \<Rightarrow> bool) \<Rightarrow> BasicFormValues \<Rightarrow> (string \<times> string) list + BasicInfoData" where
  "basicInfoSchema is_email v =
     (let issues =
            z_string_min 1 ''First name is required'' ''firstName'' (firstName_field v) @
            z_string_min 1 ''Last name is required'' ''lastName'' (lastName_field v) @
            z_string_email is_email ''Invalid email address'' ''email'' (email_field v) @
            z_string_min 1 ''Phone number is required'' ''phone'' (phone_field v) @
            (case canTravelToNaviMumbai_field v of
               None \<Rightarrow> [(''canTravelToNaviMumbai'', ''Please select an option'')]
             | Some a \<Rightarrow> []) @
            z_string_optional ''currentSalary'' (currentSalary_field v) @
            z_string_optional ''expectedSalary'' (expectedSalary_field v) @
            z_string_min 10 ''Please provide a detailed response (minimum 10 characters)''
              ''whyMotorOctane'' (whyMotorOctane_field v)
      in case canTravelToNaviMumbai_field v of
           Some a \<Rightarrow>
             if issues = [] then
               Inr \<lparr>firstName = firstName_field v, lastName = lastName_field v,
                    email = email_field v, phone = phone_field v, cv = None,
                    canTravelToNaviMumbai = a, currentSalary = currentSalary_field v,
                    expectedSalary = expectedSalary_field v,
                    whyMotorOctane = whyMotorOctane_field v\<rparr>
             else Inl issues
         | None \<Rightarrow> Inl issues)"

text \<open>
  \<open>jobSpecificSchema\<close> is \<open>z.object({ questions: z.record(z.string().optional()) })\<close>:
  every entry of the record is checked with \<open>z.string().optional()\<close>, which has no
  minimum length.
\<close>

definition jobSpecificSchema ::
  "(string \<times> string option) list \<Rightarrow> (string \<times> string) list + JobSpecificData" where
  "jobSpecificSchema qs =
     (let issues = concat (map (\<lambda>(k, v). z_string_optional (''questions.'' @ k) v) qs)
      in if issues = [] then Inr \<lparr>questions = qs\<rparr> else Inl issues)"

section \<open>The application form: state and handlers\<close>

record toast =
  toast_title :: string
  toast_description :: string
  destructive :: bool

text \<open>
  The body of the request. \<open>JSON.stringify(questions)\<close> is kept as the record it
  encodes: the entries with a defined value, in order.
\<close>

datatype form_value =
    FormText string
  | FormFile File
  | FormJson "(string \<times> string) list"

definition stringify_questions :: "(string \<times> string option) list \<Rightarrow> (string \<times> string) list" where
  "stringify_questions qs =
     concat (map (\<lambda>(k, v). case v of None \<Rightarrow> [] | Some text \<Rightarrow> [(k, text)]) qs)"

text \<open>
  The state of the component: its three \<open>useState\<close> cells, the values and the errors
  of its two forms, and what it has done to the outside: the request bodies posted to
  \<open>/api/applications\<close>, the pending flag of the mutation, the toasts shown, and the
  dialog's \<open>open\<close> flag as the parent holds it. Logging and the invalidation of the
  query cache do not touch the form and are left out.
\<close>

record form_state =
  cvFile :: "File option"
  currentStep :: nat
  basicInfo :: "BasicInfoData option"
  basicForm :: BasicFormValues
  basicErrors :: "(string \<times> string) list"
  jobSpecificForm :: "(string \<times> string option) list"
  jobSpecificErrors :: "(string \<times> string) list"
  requests :: "(string \<times> form_value) list list"
  isPending :: bool
  toasts :: "toast list"
  dialogOpen :: bool

definition freshState :: "(string \<times> string option) list \<Rightarrow> form_state" where
  "freshState defaults =
     \<lparr>cvFile = None, currentStep = 1, basicInfo = None,
      basicForm = basicForm_defaultValues, basicErrors = [],
      jobSpecificForm = defaults, jobSpecificErrors = [],
      requests = [], isPending = False, toasts = [], dialogOpen = True\<rparr>"

text \<open>The first render: it fails where the default values cannot be computed.\<close>

definition initialState :: "js_value \<Rightarrow> render_error + form_state" where
  "initialState jobSpecificQuestions =
     (case jobSpecificForm_defaultValues jobSpecificQuestions of
        Inl e \<Rightarrow> Inl e
      | Inr defaults \<Rightarrow> Inr (freshState defaults))"

text \<open>The body built by \<open>mutationFn\<close>; \<open>if (x)\<close> on a string is false for \<open>''\<close>.\<close>

definition truthy_text :: "string option \<Rightarrow> bool" where
  "truthy_text v = (case v of None \<Rightarrow> False | Some text \<Rightarrow> text \<noteq> [])"

definition buildFormData ::
  "JobOpening \<Rightarrow> File option \<Rightarrow> BasicInfoData \<Rightarrow> JobSpecificData option \<Rightarrow>
   (string \<times> form_value) list" where
  "buildFormData job file basicData jobSpecificData =
     [(''jobId'', FormText (job_id job)),
      (''firstName'', FormText (firstName basicData)),
      (''lastName'', FormText (lastName basicData)),
      (''email'', FormText (email basicData)),
      (''phone'', FormText (phone basicData))] @
     (case file of None \<Rightarrow> [] | Some f \<Rightarrow> [(''cv'', FormFile f)]) @
     [(''canTravelToNaviMumbai'', FormText (travel_string (canTravelToNaviMumbai basicData)))] @
     (if truthy_text (currentSalary basicData)
      then [(''currentSalary'', FormText (or_empty (currentSalary basicData)))] else []) @
     (if truthy_text (expectedSalary basicData)
      then [(''expectedSalary'', FormText (or_empty (expectedSalary basicData)))] else []) @
     [(''whyMotorOctane'', FormText (whyMotorOctane basicData))] @
     (case jobSpecificData of
        None \<Rightarrow> []
      | Some d \<Rightarrow> [(''jobSpecificAnswers'', FormJson (stringify_questions (questions d)))])"

definition submitApplication_mutate ::
  "JobOpening \<Rightarrow> BasicInfoData \<Rightarrow> JobSpecificData option \<Rightarrow> form_state \<Rightarrow> form_state" where
  "submitApplication_mutate job basicData jobSpecificData s =
     s\<lparr>requests := requests s @ [buildFormData job (cvFile s) basicData jobSpecificData],
       isPending := True\<rparr>"

text \<open>
  The handlers close over \<open>job\<close> and over \<open>jobSpecificQuestions\<close>, the value the
  selector returned for it; both are arguments here.
\<close>

definition onBasicInfoSubmit ::
  "JobOpening \<Rightarrow> js_value \<Rightarrow> BasicInfoData \<Rightarrow> form_state \<Rightarrow> form_state" where
  "onBasicInfoSubmit job jobSpecificQuestions data s =
     (let s1 = s\<lparr>basicInfo := Some data\<rparr>
      in if \<not> isStepRequired jobSpecificQuestions
         then submitApplication_mutate job data None s1
         else s1\<lparr>currentStep := 2\<rparr>)"

definition onJobSpecificSubmit :: "JobOpening \<Rightarrow> JobSpecificData \<Rightarrow> form_state \<Rightarrow> form_state" where
  "onJobSpecificSubmit job data s =
     (case basicInfo s of
        None \<Rightarrow>
          s\<lparr>toasts := toasts s @
               [\<lparr>toast_title = ''Missing Information'',
                 toast_description = ''Please complete step 1 first.'',
                 destructive = True\<rparr>],
            currentStep := 1\<rparr>
      | Some b \<Rightarrow> submitApplication_mutate job b (Some data) s)"

text \<open>
  \<open>form.handleSubmit(handler)\<close>: the form's values go through the schema; the handler
  runs on the parsed data only when there is no issue, otherwise the issues become the
  form's field errors and nothing else happens.
\<close>

definition basicForm_handleSubmit ::
  "(string \<Rightarrow> bool) \<Rightarrow> JobOpening \<Rightarrow> js_value \<Rightarrow> form_state \<Rightarrow> form_state" where
  "basicForm_handleSubmit is_email job jobSpecificQuestions s =
     (case basicInfoSchema is_email (basicForm s) of
        Inl issues \<Rightarrow> s\<lparr>basicErrors := issues\<rparr>
      | Inr data \<Rightarrow> onBasicInfoSubmit job jobSpecificQuestions data (s\<lparr>basicErrors := []\<rparr>))"

definition jobSpecificForm_handleSubmit :: "JobOpening \<Rightarrow> form_state \<Rightarrow> form_state" where
  "jobSpecificForm_handleSubmit job s =
     (case jobSpecificSchema (jobSpecificForm s) of
        Inl issues \<Rightarrow> s\<lparr>jobSpecificErrors := issues\<rparr>
      | Inr data \<Rightarrow> onJobSpecificSubmit job data (s\<lparr>jobSpecificErrors := []\<rparr>))"

definition resetForms :: "(string \<times> string option) list \<Rightarrow> form_state \<Rightarrow> form_state" where
  "resetForms defaults s =
     s\<lparr>basicForm := basicForm_defaultValues, basicErrors := [],
       jobSpecificForm := defaults, jobSpecificErrors := [],
       cvFile := None, currentStep := 1, basicInfo := None\<rparr>"

definition goBack :: "form_state \<Rightarrow> form_state" where
  "goBack s = s\<lparr>currentStep := 1\<rparr>"

definition handleFileUpload :: "File option \<Rightarrow> form_state \<Rightarrow> form_state" where
  "handleFileUpload file s = (case file of None \<Rightarrow> s | Some f \<Rightarrow> s\<lparr>cvFile := Some f\<rparr>)"

text \<open>What the dialog shows: \<open>currentStep === 1 ? renderStep1() : renderStep2()\<close>.\<close>

datatype view = Step1View | Step2View

definition rendered :: "form_state \<Rightarrow> view" where
  "rendered s = (if currentStep s = 1 then Step1View else Step2View)"

text \<open>The label of a step-2 field: the question followed by the required mark.\<close>

definition step2_label :: "QuestionConfig \<Rightarrow> string" where
  "step2_label questionConfig = question questionConfig @ '' *''"


section \<open>Answering a step-2 question\<close>

text \<open>
  \<open>field.value\<close> and \<open>field.onChange\<close> of the field registered for a question. The
  field's name is \<open>questions.\<close> followed by the question text; the text is taken as the
  key of the record, which is where the form library puts a name that has no dot,
  bracket or quote in it.
\<close>

definition field_value :: "string \<Rightarrow> form_state \<Rightarrow> string option" where
  "field_value q s = (case map_of (jobSpecificForm s) q of None \<Rightarrow> None | Some v \<Rightarrow> v)"

definition field_onChange :: "string \<Rightarrow> string \<Rightarrow> form_state \<Rightarrow> form_state" where
  "field_onChange q v s = s\<lparr>jobSpecificForm := AList.update q (Some v) (jobSpecificForm s)\<rparr>"

text \<open>The \<open>onClick\<close> handler of one option of a checkbox question.\<close>

definition currentValues :: "string option \<Rightarrow> string list" where
  "currentValues v =
     (let fieldValue = or_empty v
      in if fieldValue \<noteq> []
         then filter (\<lambda>x. trim x \<noteq> []) (split_comma_space fieldValue)
         else [])"

definition checkbox_newFieldValue :: "string \<Rightarrow> string option \<Rightarrow> string" where
  "checkbox_newFieldValue opt v =
     (let newValues =
            (if opt \<in> set (currentValues v)
             then filter (\<lambda>x. x \<noteq> opt) (currentValues v)
             else currentValues v @ [opt])
      in if length newValues > 0 then join '', '' newValues else [])"

definition checkbox_onClick :: "string \<Rightarrow> string \<Rightarrow> form_state \<Rightarrow> form_state" where
  "checkbox_onClick q opt s = field_onChange q (checkbox_newFieldValue opt (field_value q s)) s"

definition isChecked :: "string \<Rightarrow> string \<Rightarrow> form_state \<Rightarrow> bool" where
  "isChecked q opt s = (opt \<in> set (currentValues (field_value q s)))"

section \<open>The response to the submission\<close>

text \<open>
  A parsed JSON text. Numbers are restricted to the integers, printed in decimal (what
  the platform prints below \<open>10^21\<close>); an object is the list of its properties, each
  name once.
\<close>

datatype json =
    JNull
  | JBool bool
  | JNumber int
  | JString string
  | JArray "json list"
  | JObject "(string \<times> json) list"

fun show_nat :: "nat \<Rightarrow> string" where
  "show_nat n =
     (if n < 10 then [''0123456789'' ! n]
      else show_nat (n div 10) @ [''0123456789'' ! (n mod 10)])"

declare show_nat.simps [simp del]

definition show_int :: "int \<Rightarrow> string" where
  "show_int i = (if i < 0 then ''-'' @ show_nat (nat (- i)) else show_nat (nat i))"

fun truthy :: "json \<Rightarrow> bool" where
  "truthy JNull = False"
| "truthy (JBool b) = b"
| "truthy (JNumber n) = (n \<noteq> 0)"
| "truthy (JString text) = (text \<noteq> [])"
| "truthy (JArray xs) = True"
| "truthy (JObject fs) = True"

text \<open>The conversion a template literal applies to a value.\<close>

fun to_string :: "json \<Rightarrow> string" and elements_to_string :: "json list \<Rightarrow> string list" where
  "to_string JNull = ''null''"
| "to_string (JBool b) = (if b then ''true'' else ''false'')"
| "to_string (JNumber n) = show_int n"
| "to_string (JString text) = text"
| "to_string (JArray xs) = join '','' (elements_to_string xs)"
| "to_string (JObject fs) = ''[object Object]''"
| "elements_to_string [] = []"
| "elements_to_string (JNull # xs) = [] # elements_to_string xs"
| "elements_to_string (x # xs) = to_string x # elements_to_string xs"

text \<open>
  The platform, as far as the mutation function depends on it: \<open>JSON.parse\<close> (\<open>None\<close>
  when it throws) and the message of the error raised when a response body is read a
  second time.
\<close>

record platform =
  JSON_parse :: "string \<Rightarrow> json option"
  bodyUsedMessage :: string

text \<open>
  What \<open>fetch\<close> settles with: a rejection with its message, or a response with its
  status and its body, which is absent, a text, or a stream that fails while read.
\<close>

datatype response_body = NoBody | BodyText string | BodyFails

datatype js_error = Error string

datatype fetch_result = FetchRejected string | Response nat response_body

definition response_ok :: "nat \<Rightarrow> bool" where
  "response_ok status = (200 \<le> status \<and> status \<le> 299)"

text \<open>
  The \<open>try\<close> block of the failure path: \<open>details = json.details || json.error || text\<close>.
  \<open>JSON.parse\<close> may throw, and so does the property read when the text parses to
  \<open>null\<close>; both leave \<open>details\<close> as the text. A parsed value that is not an object has
  neither property.
\<close>

definition first_truthy :: "json option \<Rightarrow> string \<Rightarrow> string" where
  "first_truthy v rest = (case v of None \<Rightarrow> rest | Some j \<Rightarrow> if truthy j then to_string j else rest)"

definition failure_details :: "platform \<Rightarrow> string \<Rightarrow> string" where
  "failure_details P text =
     (case JSON_parse P text of
        None \<Rightarrow> text
      | Some JNull \<Rightarrow> text
      | Some (JObject fs) \<Rightarrow>
          first_truthy (map_of fs ''details'') (first_truthy (map_of fs ''error'') text)
      | Some other \<Rightarrow> text)"

definition mutationFn_response :: "platform \<Rightarrow> fetch_result \<Rightarrow> js_error + json" where
  "mutationFn_response P r =
     (case r of
        FetchRejected message \<Rightarrow> Inl (Error message)
      | Response status body \<Rightarrow>
          if \<not> response_ok status then
            (let text = (case body of BodyText t \<Rightarrow> t | NoBody \<Rightarrow> [] | BodyFails \<Rightarrow> [])
             in Inl (Error (''Failed to submit application (HTTP '' @ show_nat status @ ''). '' @
                            failure_details P text)))
          else
            (case body of
               BodyText t \<Rightarrow>
                 (case JSON_parse P t of
                    Some result \<Rightarrow> Inr result
                  | None \<Rightarrow> Inl (Error (bodyUsedMessage P)))
             | NoBody \<Rightarrow> Inl (Error ''Failed to parse server response JSON. Raw: '')
             | BodyFails \<Rightarrow> Inl (Error (bodyUsedMessage P))))"

definition error_message :: "js_error \<Rightarrow> string" where
  "error_message e = (case e of Error m \<Rightarrow> m)"

definition submitApplication_onSuccess ::
  "(string \<times> string option) list \<Rightarrow> form_state \<Rightarrow> form_state" where
  "submitApplication_onSuccess defaults s =
     (resetForms defaults
        (s\<lparr>toasts := toasts s @
              [\<lparr>toast_title = ''Application Submitted'',
                toast_description = ''Your application has been successfully submitted. We'll be in touch soon!'',
                destructive = False\<rparr>]\<rparr>))
     \<lparr>dialogOpen := False, isPending := False\<rparr>"

definition submitApplication_onError :: "js_error \<Rightarrow> form_state \<Rightarrow> form_state" where
  "submitApplication_onError e s =
     s\<lparr>toasts := toasts s @
          [\<lparr>toast_title = ''Error'', toast_description = error_message e, destructive = True\<rparr>],
       isPending := False\<rparr>"

definition submitApplication_settle ::
  "platform \<Rightarrow> (string \<times> string option) list \<Rightarrow> fetch_result \<Rightarrow> form_state \<Rightarrow> form_state" where
  "submitApplication_settle P defaults r s =
     (case mutationFn_response P r of
        Inl e \<Rightarrow> submitApplication_onError e s
      | Inr result \<Rightarrow> submitApplication_onSuccess defaults s)"


section \<open>Sample inputs\<close>

definition marketingInternship :: JobOpening where
  "marketingInternship =
     \<lparr>job_id = ''job-7'', job_title = Some ''Marketing Internship'',
      job_department = Some ''marketing'', job_type = Some ''Internship''\<rparr>"

definition socialMediaExecutive :: JobOpening where
  "socialMediaExecutive =
     \<lparr>job_id = ''job-3'', job_title = Some ''Social Media Executive'',
      job_department = Some ''content'', job_type = Some ''Full-time''\<rparr>"

definition applicant :: BasicInfoData where
  "applicant =
     \<lparr>firstName = ''Asha'', lastName = ''Rao'', email = ''asha@example.com'',
      phone = ''9800000000'', cv = None, canTravelToNaviMumbai = TravelYes,
      currentSalary = Some [], expectedSalary = Some [],
      whyMotorOctane = ''I have filmed cars for years.''\<rparr>"

definition applicantForm :: BasicFormValues where
  "applicantForm =
     \<lparr>firstName_field = ''Asha'', lastName_field = ''Rao'', email_field = ''asha@example.com'',
      phone_field = ''9800000000'', canTravelToNaviMumbai_field = Some TravelYes,
      currentSalary_field = Some [], expectedSalary_field = Some [],
      whyMotorOctane_field = ''I have filmed cars for years.''\<rparr>"

text \<open>
  The internship form with step 1 filled in, the same form once step 1 has been
  accepted, and the form of the social-media job at step 2.
\<close>

definition internshipStep1 :: form_state where
  "internshipStep1 = (freshState (questionDefaults internshipQuestions))\<lparr>basicForm := applicantForm\<rparr>"

definition internshipStep2 :: form_state where
  "internshipStep2 = internshipStep1\<lparr>basicInfo := Some applicant, currentStep := 2\<rparr>"

definition socialMediaStep2 :: form_state where
  "socialMediaStep2 =
     (freshState (questionDefaults socialMediaQuestions))
       \<lparr>basicForm := applicantForm, basicInfo := Some applicant, currentStep := 2\<rparr>"

text \<open>The toast of a failed submission with status \<open>status\<close> and details \<open>d\<close>.\<close>

abbreviation failure_toast :: "nat \<Rightarrow> string \<Rightarrow> toast" where
  "failure_toast status d \<equiv>
     \<lparr>toast_title = ''Error'',
      toast_description = ''Failed to submit application (HTTP '' @ show_nat status @ ''). '' @ d,
      destructive = True\<rparr>"

definition editOnPhone :: string where
  "editOnPhone = ''Can you edit photos and videos on a phone?''"

text \<open>
  Three response bodies and a platform whose \<open>JSON.parse\<close> is given on them: two JSON
  objects and a text that is not JSON.
\<close>

definition bodyWithDetails :: string where
  \<open>bodyWithDetails = ''{"error":"Validation failed","details":"Unknown job"}''\<close>

definition bodyWithError :: string where
  \<open>bodyWithError = ''{"error":"Storage unavailable"}''\<close>

definition bodyNotJson :: string where
  "bodyNotJson = ''Bad Gateway''"

definition samplePlatform :: platform where
  "samplePlatform =
     \<lparr>JSON_parse = (\<lambda>text.
        if text = bodyWithDetails
        then Some (JObject [(''error'', JString ''Validation failed''),
                            (''details'', JString ''Unknown job'')])
        else if text = bodyWithError
        then Some (JObject [(''error'', JString ''Storage unavailable'')])
        else None),
      bodyUsedMessage = ''body stream already read''\<rparr>"

text \<open>A property that \<open>||\<close> skips: it is missing, or its value is falsy.\<close>

definition skipped :: "json option \<Rightarrow> bool" where
  "skipped v = (case v of None \<Rightarrow> True | Some j \<Rightarrow> \<not> truthy j)"

definition constructorDepartmentJob :: JobOpening where
  "constructorDepartmentJob =
     \<lparr>job_id = ''job-5'', job_title = Some ''Service Engineer'',
      job_department = Some ''constructor'', job_type = Some ''Full-time''\<rparr>"

definition protoDepartmentJob :: JobOpening where
  "protoDepartmentJob =
     \<lparr>job_id = ''job-6'', job_title = Some ''Service Engineer'',
      job_department = Some ''__proto__'', job_type = Some ''Full-time''\<rparr>"

text \<open>The answer to question \<open>q\<close> in a request body.\<close>

definition sent_answer :: "string \<Rightarrow> (string \<times> form_value) list \<Rightarrow> string option" where
  "sent_answer q body =
     (case map_of body ''jobSpecificAnswers'' of
        Some (FormJson answers) \<Rightarrow> map_of answers q
      | _ \<Rightarrow> None)"


section \<open>Properties of the question selector\<close>

lemmas title_defs = or_empty_def toLowerCase_def lower_char_def

lemma list_lengths:
  "length videographerEditorQuestions = 10" "length contentWriterQuestions = 3"
  "length socialMediaQuestions = 5" "length mediaSalesQuestions = 4"
  "length internshipQuestions = 3" "length commonQuestions = 2"
  by (simp_all add: videographerEditorQuestions_def contentWriterQuestions_def
      socialMediaQuestions_def mediaSalesQuestions_def internshipQuestions_def commonQuestions_def)

text \<open>
  Claim C3. A job titled "Social Media Executive" in the department "content", whatever
  its id and type, gets the social-media list: five questions in their listed order,
  which is not the list stored under the department key \<open>content\<close>.
\<close>

theorem social_media_executive_questions:
  "getJobSpecificQuestions
     \<lparr>job_id = i, job_title = Some ''Social Media Executive'',
      job_department = Some ''content'', job_type = t\<rparr> = QuestionArray socialMediaQuestions
   \<and> map question socialMediaQuestions =
       [''Will you be open to work as an intern if you don't have any experience?'',
        ''Have you done any courses on social media with certification?'',
        ''Can you edit photos and videos on a phone?'',
        ''How well do you understand Facebook & Instagram when it comes to business tools?'',
        ''How many years of relevant experience do you have in Social Media?'']
   \<and> get_property departmentQuestions ''content'' \<noteq> Some (QuestionArray socialMediaQuestions)"
proof -
  have "getJobSpecificQuestions
     \<lparr>job_id = i, job_title = Some ''Social Media Executive'',
      job_department = Some ''content'', job_type = t\<rparr> = QuestionArray socialMediaQuestions"
    by (simp add: getJobSpecificQuestions_def title_defs)
  moreover have "map question socialMediaQuestions =
       [''Will you be open to work as an intern if you don't have any experience?'',
        ''Have you done any courses on social media with certification?'',
        ''Can you edit photos and videos on a phone?'',
        ''How well do you understand Facebook & Instagram when it comes to business tools?'',
        ''How many years of relevant experience do you have in Social Media?'']"
    by (simp add: socialMediaQuestions_def choice_def rating_def)
  moreover have "get_property departmentQuestions ''content'' \<noteq> Some (QuestionArray socialMediaQuestions)"
    by (simp add: get_property_def departmentQuestions_def socialMediaQuestions_def
        commonQuestions_def choice_def plain_def)
  ultimately show ?thesis by simp
qed

text \<open>
  Claim C4. A job of type "Internship" titled "Marketing Internship" gets the three
  internship questions whatever its department, although "marketing" is a key of the
  department table; a role keyword in the title still wins over the internship branch,
  as the title "Social Media Internship" shows.
\<close>

theorem marketing_internship_questions:
  "getJobSpecificQuestions
     \<lparr>job_id = i, job_title = Some ''Marketing Internship'',
      job_department = d, job_type = Some ''Internship''\<rparr> = QuestionArray internshipQuestions
   \<and> map question internshipQuestions =
       [''Are you currently studying?'',
        ''Can you dedicate 6 months for full time work?'',
        ''We can offer Rs 8000 stipend per month - if ok then we proceed with your application'']
   \<and> get_property departmentQuestions (toLowerCase ''Marketing'') \<noteq> None
   \<and> getJobSpecificQuestions
     \<lparr>job_id = i, job_title = Some ''Social Media Internship'',
      job_department = d, job_type = Some ''Internship''\<rparr> = QuestionArray socialMediaQuestions"
proof -
  have "getJobSpecificQuestions
     \<lparr>job_id = i, job_title = Some ''Marketing Internship'',
      job_department = d, job_type = Some ''Internship''\<rparr> = QuestionArray internshipQuestions"
    by (simp add: getJobSpecificQuestions_def title_defs)
  moreover have "map question internshipQuestions =
       [''Are you currently studying?'',
        ''Can you dedicate 6 months for full time work?'',
        ''We can offer Rs 8000 stipend per month - if ok then we proceed with your application'']"
    by (simp add: internshipQuestions_def plain_def)
  moreover have "get_property departmentQuestions (toLowerCase ''Marketing'') \<noteq> None"
    by (simp add: get_property_def departmentQuestions_def title_defs)
  moreover have "getJobSpecificQuestions
     \<lparr>job_id = i, job_title = Some ''Social Media Internship'',
      job_department = d, job_type = Some ''Internship''\<rparr> = QuestionArray socialMediaQuestions"
    by (simp add: getJobSpecificQuestions_def title_defs)
  ultimately show ?thesis by simp
qed

text \<open>
  Claim C10. Every job whose lowercased title contains \<open>video\<close> or \<open>editor\<close> gets the
  ten-question videographer/editor list, whatever else the job says: the branch comes
  first. The title "Content Editor" is such a title, though it contains neither
  \<open>videographer\<close> nor \<open>video editor\<close>.
\<close>

theorem video_or_editor_title:
  assumes "job_title job = Some t"
    and "str_includes (toLowerCase t) ''video'' \<or> str_includes (toLowerCase t) ''editor''"
  shows "getJobSpecificQuestions job = QuestionArray videographerEditorQuestions
         \<and> length videographerEditorQuestions = 10"
  using assms by (auto simp: getJobSpecificQuestions_def or_empty_def list_lengths)

theorem video_or_editor_title_witness:
  "job_title \<lparr>job_id = ''job-9'', job_title = Some ''Content Editor'',
      job_department = Some ''content'', job_type = Some ''Full-time''\<rparr> = Some ''Content Editor''
   \<and> str_includes (toLowerCase ''Content Editor'') ''editor''
   \<and> \<not> str_includes (toLowerCase ''Content Editor'') ''videographer''
   \<and> \<not> str_includes (toLowerCase ''Content Editor'') ''video editor''
   \<and> getJobSpecificQuestions \<lparr>job_id = ''job-9'', job_title = Some ''Content Editor'',
      job_department = Some ''content'', job_type = Some ''Full-time''\<rparr>
       = QuestionArray videographerEditorQuestions
   \<and> length videographerEditorQuestions = 10
   \<and> videographerEditorQuestions \<noteq> contentWriterQuestions"
proof -
  have e: "str_includes (toLowerCase ''Content Editor'') ''editor''"
    by (simp add: title_defs)
  have n: "\<not> str_includes (toLowerCase ''Content Editor'') ''videographer''"
      "\<not> str_includes (toLowerCase ''Content Editor'') ''video editor''"
    by (simp_all add: title_defs)
  have d: "videographerEditorQuestions \<noteq> contentWriterQuestions"
    using list_lengths by (metis numeral_eq_iff semiring_norm(89))
  show ?thesis
    using video_or_editor_title [of "\<lparr>job_id = ''job-9'', job_title = Some ''Content Editor'',
      job_department = Some ''content'', job_type = Some ''Full-time''\<rparr>" "''Content Editor''"] e n d
    by simp
qed


lemma lower_char_not_upper: "lower_char c \<notin> set ''ABCDEFGHIJKLMNOPQRSTUVWXYZ''"
  by (simp add: lower_char_def)

lemma toLowerCase_no_upper:
  assumes "x \<in> set (toLowerCase s)"
  shows "x \<notin> set ''ABCDEFGHIJKLMNOPQRSTUVWXYZ''"
proof -
  from assms obtain c where "x = lower_char c"
    unfolding toLowerCase_def by auto
  then show ?thesis
    using lower_char_not_upper [of c] by simp
qed

lemma lowered_no_upper:
  "x \<in> set (or_empty (map_option toLowerCase d)) \<Longrightarrow> x \<notin> set ''ABCDEFGHIJKLMNOPQRSTUVWXYZ''"
  by (cases d) (auto simp: or_empty_def dest: toLowerCase_no_upper)

lemma inherited_function_lowered:
  assumes "map_of object_prototype_functions (or_empty (map_option toLowerCase d)) = Some n"
  shows "or_empty (map_option toLowerCase d) = ''constructor''"
proof -
  let ?k = "or_empty (map_option toLowerCase d)"
  have up: "CHR ''O'' \<notin> set ?k" "CHR ''P'' \<notin> set ?k" "CHR ''I'' \<notin> set ?k" "CHR ''L'' \<notin> set ?k"
    "CHR ''S'' \<notin> set ?k" "CHR ''G'' \<notin> set ?k"
    using lowered_no_upper [of _ d] by fastforce+
  from assms have "?k \<in> fst ` set object_prototype_functions"
    by (metis map_of_SomeD image_eqI fst_conv)
  then show ?thesis
    using up unfolding object_prototype_functions_def by auto
qed

lemma department_table_lengths:
  "map_of departmentQuestions k = Some qs \<Longrightarrow> length qs = 5"
  by (auto simp: departmentQuestions_def list_lengths split: if_splits)

lemma selector_array_length:
  "getJobSpecificQuestions job = QuestionArray qs \<Longrightarrow> 2 \<le> length qs"
  unfolding getJobSpecificQuestions_def Let_def get_property_def
  by (auto simp: list_lengths split: if_splits option.splits dest: department_table_lengths)

lemma selector_values:
  "(\<exists>qs. getJobSpecificQuestions job = QuestionArray qs \<and> 2 \<le> length qs)
   \<or> or_empty (map_option toLowerCase (job_department job)) = ''constructor''
     \<and> getJobSpecificQuestions job = PrototypeFunction ''constructor'' 1
   \<or> or_empty (map_option toLowerCase (job_department job)) = ''__proto__''
     \<and> getJobSpecificQuestions job = ObjectPrototype"
proof (cases "getJobSpecificQuestions job")
  case (QuestionArray qs)
  then show ?thesis using selector_array_length by simp
next
  case (PrototypeFunction name n)
  then have "map_of object_prototype_functions (or_empty (map_option toLowerCase (job_department job))) = Some n
      \<and> name = or_empty (map_option toLowerCase (job_department job))"
    unfolding getJobSpecificQuestions_def Let_def get_property_def
    by (auto split: if_splits option.splits)
  then have "name = ''constructor'' \<and> or_empty (map_option toLowerCase (job_department job)) = ''constructor''
     \<and> map_of object_prototype_functions ''constructor'' = Some n"
    using inherited_function_lowered by metis
  then show ?thesis using PrototypeFunction
    by (simp add: object_prototype_functions_def)
next
  case ObjectPrototype
  then have "or_empty (map_option toLowerCase (job_department job)) = ''__proto__''"
    unfolding getJobSpecificQuestions_def Let_def get_property_def
    by (auto split: if_splits option.splits)
  then show ?thesis using ObjectPrototype by simp
qed

lemma internship_questions_required:
  "isInternship job \<Longrightarrow> \<exists>qs. getJobSpecificQuestions job = QuestionArray qs \<and> 3 \<le> length qs"
  unfolding getJobSpecificQuestions_def isInternship_def Let_def
  by (auto simp: list_lengths)

lemma rendered_form_requires_step2:
  "initialState (getJobSpecificQuestions job) = Inr s0 \<Longrightarrow> isStepRequired (getJobSpecificQuestions job)"
  using selector_array_length [of job]
  by (cases "getJobSpecificQuestions job")
     (auto simp: initialState_def jobSpecificForm_defaultValues_def isStepRequired_def js_length_def)

lemma lower_char_idem: "lower_char (lower_char c) = lower_char c"
proof -
  have "lower_char c \<notin> fst ` set (zip ''ABCDEFGHIJKLMNOPQRSTUVWXYZ'' ''abcdefghijklmnopqrstuvwxyz'')"
    using lower_char_not_upper [of c] by simp
  then have "map_of (zip ''ABCDEFGHIJKLMNOPQRSTUVWXYZ'' ''abcdefghijklmnopqrstuvwxyz'') (lower_char c) = None"
    by (simp only: map_of_eq_None_iff not_False_eq_True)
  then show ?thesis
    by (subst lower_char_def) simp
qed

lemma toLowerCase_idem: "toLowerCase (toLowerCase s) = toLowerCase s"
  by (simp add: toLowerCase_def lower_char_idem)

lemma lowered_idem:
  "toLowerCase (or_empty (map_option toLowerCase t)) = or_empty (map_option toLowerCase t)"
  by (cases t) (simp_all add: or_empty_def toLowerCase_idem, simp add: toLowerCase_def)

lemma unrecognized_department_generic:
  assumes "list_all (\<lambda>k. \<not> str_includes (or_empty (map_option toLowerCase (job_title job))) k)
             [''videographer'', ''video editor'', ''video'', ''editor'', ''content writer'',
              ''writer'', ''content'', ''social media'', ''content creation'', ''social'',
              ''media sales'', ''sales'', ''internship'']"
    and "\<not> str_includes (or_empty (map_option toLowerCase (job_type job))) ''internship''"
    and "or_empty (map_option toLowerCase (job_department job)) \<notin> set (map fst departmentQuestions)"
    and "or_empty (map_option toLowerCase (job_department job)) \<noteq> ''constructor''"
    and "or_empty (map_option toLowerCase (job_department job)) \<noteq> ''__proto__''"
  shows "getJobSpecificQuestions job = QuestionArray commonQuestions"
proof -
  let ?d = "or_empty (map_option toLowerCase (job_department job))"
  have own: "map_of departmentQuestions ?d = None"
    using assms(3) by (simp only: map_of_eq_None_iff set_map not_False_eq_True)
  have "map_of object_prototype_functions ?d = None"
    using inherited_function_lowered [of "job_department job"] assms(4)
    by (cases "map_of object_prototype_functions ?d") auto
  with own assms(5) have "get_property departmentQuestions ?d = None"
    by (simp add: get_property_def)
  then show ?thesis
    using assms(1,2)
    by (simp add: getJobSpecificQuestions_def Let_def lowered_idem)
qed

text \<open>
  Claim C6. The code at a job that matches no title branch, is no internship, and whose
  department is \<open>constructor\<close>, which is not a key of the department table: the
  selector returns the function inherited from \<open>Object.prototype\<close>, not the two generic
  questions, and the form cannot compute its default values from it.
\<close>

theorem constructor_department_lookup:
  "getJobSpecificQuestions constructorDepartmentJob = PrototypeFunction ''constructor'' 1
   \<and> getJobSpecificQuestions constructorDepartmentJob \<noteq> QuestionArray commonQuestions
   \<and> map_of departmentQuestions (toLowerCase ''constructor'') = None
   \<and> initialState (getJobSpecificQuestions constructorDepartmentJob)
       = Inl ReduceIsNotAFunction"
proof -
  have "getJobSpecificQuestions constructorDepartmentJob = PrototypeFunction ''constructor'' 1"
    by (simp add: getJobSpecificQuestions_def constructorDepartmentJob_def title_defs
        get_property_def departmentQuestions_def object_prototype_functions_def)
  moreover have "map_of departmentQuestions (toLowerCase ''constructor'') = None"
    by (simp add: departmentQuestions_def title_defs)
  ultimately show ?thesis
    by (simp add: initialState_def jobSpecificForm_defaultValues_def)
qed

text \<open>
  Claim C9. The code at a job that matches no title branch, is no internship, and whose
  department is \<open>__proto__\<close>: the selector returns the prototype object, which is not a
  list and has no length, so \<open>isStepRequired\<close> is false; the form cannot compute its
  default values from it.
\<close>

theorem proto_department_step_not_required:
  "getJobSpecificQuestions protoDepartmentJob = ObjectPrototype
   \<and> js_length (getJobSpecificQuestions protoDepartmentJob) = None
   \<and> isStepRequired (getJobSpecificQuestions protoDepartmentJob) = False
   \<and> initialState (getJobSpecificQuestions protoDepartmentJob)
       = Inl ReduceIsNotAFunction"
proof -
  have "getJobSpecificQuestions protoDepartmentJob = ObjectPrototype"
    by (simp add: getJobSpecificQuestions_def protoDepartmentJob_def title_defs
        get_property_def departmentQuestions_def object_prototype_functions_def)
  then show ?thesis
    by (simp add: initialState_def jobSpecificForm_defaultValues_def isStepRequired_def js_length_def)
qed

section \<open>Properties of the form\<close>

text \<open>
  Claim C7. The Back action sets the current step to 1, so that step 1 is shown, and
  changes nothing else: \<open>basicInfo\<close>, the values of the step-1 form, the step-2 answers
  and the selected CV file are what they were, and so is the rest of the state.
\<close>

theorem goBack_frame:
  "currentStep (goBack s) = 1
   \<and> basicInfo (goBack s) = basicInfo s
   \<and> basicForm (goBack s) = basicForm s
   \<and> jobSpecificForm (goBack s) = jobSpecificForm s
   \<and> cvFile (goBack s) = cvFile s
   \<and> goBack s = s\<lparr>currentStep := 1\<rparr>
   \<and> rendered (goBack s) = Step1View"
  by (simp add: goBack_def rendered_def)


lemma jobSpecificSchema_accepts: "jobSpecificSchema qs = Inr \<lparr>questions = qs\<rparr>"
proof -
  have "concat (map (\<lambda>(k, v). z_string_optional (''questions.'' @ k) v) qs) = []"
    by (induction qs) (auto simp: z_string_optional_def split: option.splits)
  then show ?thesis
    by (simp add: jobSpecificSchema_def)
qed

lemma internship_defaults:
  "questionDefaults internshipQuestions =
     [(''Are you currently studying?'', Some []),
      (''Can you dedicate 6 months for full time work?'', Some []),
      (''We can offer Rs 8000 stipend per month - if ok then we proceed with your application'', Some [])]"
  by (simp add: questionDefaults_def internshipQuestions_def plain_def)

text \<open>
  Claim C1, as stated, fails for an internship. The job "Marketing Internship" of type
  "Internship" is an internship; its form starts with the three internship questions as
  step-2 fields; when step 1 is submitted with the applicant's data the form moves to
  step 2, which is then shown, and no request has been sent.
\<close>

theorem internship_step1_goes_to_step2:
  "isInternship marketingInternship
   \<and> initialState (getJobSpecificQuestions marketingInternship)
       = Inr (freshState (questionDefaults internshipQuestions))
   \<and> onBasicInfoSubmit marketingInternship (getJobSpecificQuestions marketingInternship)
        applicant internshipStep1 = internshipStep2
   \<and> currentStep internshipStep2 = 2
   \<and> rendered internshipStep2 = Step2View
   \<and> requests internshipStep2 = []"
proof -
  have q: "getJobSpecificQuestions marketingInternship = QuestionArray internshipQuestions"
    by (simp add: getJobSpecificQuestions_def marketingInternship_def title_defs)
  have i: "isInternship marketingInternship"
    by (simp add: isInternship_def marketingInternship_def title_defs)
  have "onBasicInfoSubmit marketingInternship (QuestionArray internshipQuestions)
        applicant internshipStep1 = internshipStep2"
    by (simp add: onBasicInfoSubmit_def isStepRequired_def js_length_def list_lengths internshipStep2_def)
  then show ?thesis
    using q i
    by (simp add: initialState_def jobSpecificForm_defaultValues_def internshipStep2_def
        internshipStep1_def freshState_def rendered_def)
qed

text \<open>
  Claim C1, amended. Let step 1 be the current step and let its values pass the schema.
  If the question list the form works with is empty (more generally, if
  \<open>isStepRequired\<close> is false for it), submitting step 1 stores the data, sends one
  request built from them without job-specific answers, and leaves step 1 on screen.
  If the job is an internship, its question list is not empty: submitting step 1 stores
  the data, moves to step 2 and sends nothing.
\<close>

theorem step1_submit:
  assumes "currentStep s = 1"
    and "basicInfoSchema is_email (basicForm s) = Inr data"
  shows "(\<not> isStepRequired jobSpecificQuestions \<longrightarrow>
            basicForm_handleSubmit is_email job jobSpecificQuestions s
              = s\<lparr>basicErrors := [], basicInfo := Some data,
                  requests := requests s @ [buildFormData job (cvFile s) data None],
                  isPending := True\<rparr>
            \<and> rendered (basicForm_handleSubmit is_email job jobSpecificQuestions s) = Step1View)
       \<and> (isInternship job \<longrightarrow>
            isStepRequired (getJobSpecificQuestions job)
            \<and> basicForm_handleSubmit is_email job (getJobSpecificQuestions job) s
              = s\<lparr>basicErrors := [], basicInfo := Some data, currentStep := 2\<rparr>
            \<and> rendered (basicForm_handleSubmit is_email job (getJobSpecificQuestions job) s) = Step2View)"
proof -
  have direct: "\<not> isStepRequired jobSpecificQuestions \<Longrightarrow>
      basicForm_handleSubmit is_email job jobSpecificQuestions s
        = s\<lparr>basicErrors := [], basicInfo := Some data,
            requests := requests s @ [buildFormData job (cvFile s) data None],
            isPending := True\<rparr>"
    using assms(2)
    by (simp add: basicForm_handleSubmit_def onBasicInfoSubmit_def submitApplication_mutate_def)
  have step2: "isStepRequired q \<Longrightarrow>
      basicForm_handleSubmit is_email job q s
        = s\<lparr>basicErrors := [], basicInfo := Some data, currentStep := 2\<rparr>" for q
    using assms(2)
    by (simp add: basicForm_handleSubmit_def onBasicInfoSubmit_def)
  have req: "isInternship job \<Longrightarrow> isStepRequired (getJobSpecificQuestions job)"
    using internship_questions_required [of job]
    by (auto simp: isStepRequired_def js_length_def)
  show ?thesis
    using direct step2 req assms(1) by (auto simp: rendered_def)
qed

theorem step1_submit_witness:
  "currentStep internshipStep1 = 1
   \<and> basicInfoSchema (\<lambda>e. CHR ''@'' \<in> set e) (basicForm internshipStep1) = Inr applicant
   \<and> \<not> isStepRequired (QuestionArray [])
   \<and> requests (basicForm_handleSubmit (\<lambda>e. CHR ''@'' \<in> set e) marketingInternship
        (QuestionArray []) internshipStep1)
       = [buildFormData marketingInternship None applicant None]
   \<and> rendered (basicForm_handleSubmit (\<lambda>e. CHR ''@'' \<in> set e) marketingInternship
        (QuestionArray []) internshipStep1) = Step1View
   \<and> isInternship marketingInternship
   \<and> basicForm_handleSubmit (\<lambda>e. CHR ''@'' \<in> set e) marketingInternship
        (getJobSpecificQuestions marketingInternship) internshipStep1 = internshipStep2"
proof -
  have a: "currentStep internshipStep1 = 1"
    by (simp add: internshipStep1_def freshState_def)
  have b: "basicInfoSchema (\<lambda>e. CHR ''@'' \<in> set e) (basicForm internshipStep1) = Inr applicant"
    by (simp add: internshipStep1_def freshState_def basicInfoSchema_def applicantForm_def
        applicant_def z_string_min_def z_string_email_def z_string_optional_def)
  have c: "\<not> isStepRequired (QuestionArray [])"
    by (simp add: isStepRequired_def js_length_def)
  have i: "isInternship marketingInternship"
    by (simp add: isInternship_def marketingInternship_def title_defs)
  note t = step1_submit [OF a b, of "QuestionArray []" marketingInternship]
  from t c have d: "basicForm_handleSubmit (\<lambda>e. CHR ''@'' \<in> set e) marketingInternship
        (QuestionArray []) internshipStep1
      = internshipStep1\<lparr>basicErrors := [], basicInfo := Some applicant,
          requests := requests internshipStep1 @ [buildFormData marketingInternship (cvFile internshipStep1) applicant None],
          isPending := True\<rparr>"
    and v: "rendered (basicForm_handleSubmit (\<lambda>e. CHR ''@'' \<in> set e) marketingInternship
        (QuestionArray []) internshipStep1) = Step1View"
    by blast+
  from t i have e: "basicForm_handleSubmit (\<lambda>e. CHR ''@'' \<in> set e) marketingInternship
        (getJobSpecificQuestions marketingInternship) internshipStep1
      = internshipStep1\<lparr>basicErrors := [], basicInfo := Some applicant, currentStep := 2\<rparr>"
    by blast
  have r: "requests (basicForm_handleSubmit (\<lambda>e. CHR ''@'' \<in> set e) marketingInternship
        (QuestionArray []) internshipStep1)
       = [buildFormData marketingInternship None applicant None]"
    unfolding d by (simp add: internshipStep1_def freshState_def)
  have f: "basicForm_handleSubmit (\<lambda>e. CHR ''@'' \<in> set e) marketingInternship
        (getJobSpecificQuestions marketingInternship) internshipStep1 = internshipStep2"
    unfolding e by (simp add: internshipStep2_def internshipStep1_def freshState_def)
  show ?thesis
    using a b c i r v f by blast
qed

text \<open>
  Claim C2. The code at the internship form in step 2 with every answer still empty:
  each field is labelled as required, yet submitting the form reports no field error
  and sends the request, with the empty answers in it.
\<close>

theorem empty_answers_are_submitted:
  "map snd (jobSpecificForm internshipStep2) = [Some [], Some [], Some []]
   \<and> map step2_label internshipQuestions =
       [''Are you currently studying? *'',
        ''Can you dedicate 6 months for full time work? *'',
        ''We can offer Rs 8000 stipend per month - if ok then we proceed with your application *'']
   \<and> jobSpecificForm_handleSubmit marketingInternship internshipStep2
       = internshipStep2
           \<lparr>requests := [buildFormData marketingInternship None applicant
                           (Some \<lparr>questions = questionDefaults internshipQuestions\<rparr>)],
            isPending := True\<rparr>
   \<and> jobSpecificErrors (jobSpecificForm_handleSubmit marketingInternship internshipStep2) = []
   \<and> sent_answer ''Are you currently studying?''
        (last (requests (jobSpecificForm_handleSubmit marketingInternship internshipStep2))) = Some []"
proof -
  have s: "jobSpecificForm_handleSubmit marketingInternship internshipStep2
       = internshipStep2
           \<lparr>requests := [buildFormData marketingInternship None applicant
                           (Some \<lparr>questions = questionDefaults internshipQuestions\<rparr>)],
            isPending := True\<rparr>"
    by (simp add: jobSpecificForm_handleSubmit_def jobSpecificSchema_accepts onJobSpecificSubmit_def
        submitApplication_mutate_def internshipStep2_def internshipStep1_def freshState_def)
  have l: "map step2_label internshipQuestions =
       [''Are you currently studying? *'',
        ''Can you dedicate 6 months for full time work? *'',
        ''We can offer Rs 8000 stipend per month - if ok then we proceed with your application *'']"
    by (simp add: step2_label_def internshipQuestions_def plain_def)
  have v: "map snd (jobSpecificForm internshipStep2) = [Some [], Some [], Some []]"
    by (simp add: internshipStep2_def internshipStep1_def freshState_def internship_defaults)
  have a: "sent_answer ''Are you currently studying?''
        (buildFormData marketingInternship None applicant
           (Some \<lparr>questions = questionDefaults internshipQuestions\<rparr>)) = Some []"
    by (simp add: sent_answer_def buildFormData_def internship_defaults stringify_questions_def
        applicant_def truthy_text_def)
  have e: "jobSpecificErrors (jobSpecificForm_handleSubmit marketingInternship internshipStep2) = []"
    unfolding s by (simp add: internshipStep2_def internshipStep1_def freshState_def)
  have b: "sent_answer ''Are you currently studying?''
        (last (requests (jobSpecificForm_handleSubmit marketingInternship internshipStep2))) = Some []"
    unfolding s using a by simp
  show ?thesis
    using l v s e b by blast
qed

lemma split_aux_no_separator:
  "\<not> str_includes s (c0 # sep) \<Longrightarrow> split_aux c0 sep acc s = [rev acc @ s]"
  by (induction s arbitrary: acc) auto

lemma trim_Nil: "trim [] = []"
  by (simp add: trim_def)

lemma currentValues_empty: "or_empty v = [] \<Longrightarrow> currentValues v = []"
  by (simp add: currentValues_def)

lemma currentValues_single:
  assumes "\<not> str_includes a '', ''" and "trim a \<noteq> []"
  shows "currentValues (Some a) = [a]"
proof -
  from assms(2) have "a \<noteq> []"
    using trim_Nil by auto
  moreover from assms(1) have "split_comma_space a = [a]"
    by (simp add: split_comma_space_def split_aux_no_separator)
  ultimately show ?thesis
    using assms(2) by (simp add: currentValues_def or_empty_def)
qed

lemma first_click: "or_empty v = [] \<Longrightarrow> checkbox_newFieldValue a v = a"
  by (simp add: checkbox_newFieldValue_def currentValues_empty)

lemma second_click:
  assumes "a \<noteq> b" and "\<not> str_includes a '', ''" and "trim a \<noteq> []"
  shows "checkbox_newFieldValue b (Some a) = a @ '', '' @ b"
  using assms by (simp add: checkbox_newFieldValue_def currentValues_single)

lemma field_value_onChange: "field_value q (field_onChange q v s) = Some v"
  by (simp add: field_value_def field_onChange_def update_conv')

lemma two_clicks:
  assumes "or_empty (field_value q s) = []"
    and "a \<noteq> b" and "\<not> str_includes a '', ''" and "trim a \<noteq> []"
  shows "field_value q (checkbox_onClick q b (checkbox_onClick q a s)) = Some (a @ '', '' @ b)"
  using assms
  by (simp add: checkbox_onClick_def field_value_onChange first_click second_click)

lemma map_of_stringify_questions:
  "map_of al q = Some (Some v) \<Longrightarrow> map_of (stringify_questions al) q = Some v"
  by (induction al) (auto simp: stringify_questions_def split: option.splits if_splits)

lemma sent_answer_buildFormData:
  "sent_answer q (buildFormData job f info (Some d)) = map_of (stringify_questions (questions d)) q"
  by (cases f) (simp_all add: sent_answer_def buildFormData_def)

lemma handleSubmit_step2_request:
  assumes "basicInfo s = Some info"
  shows "requests (jobSpecificForm_handleSubmit job s)
         = requests s @ [buildFormData job (cvFile s) info (Some \<lparr>questions = jobSpecificForm s\<rparr>)]"
  using assms
  by (simp add: jobSpecificForm_handleSubmit_def jobSpecificSchema_accepts onJobSpecificSubmit_def
      submitApplication_mutate_def)

lemma sent_after_clicks:
  assumes "basicInfo s = Some info" and "field_value q s = Some v"
  shows "sent_answer q (last (requests (jobSpecificForm_handleSubmit job s))) = Some v"
proof -
  from assms(2) have "map_of (jobSpecificForm s) q = Some (Some v)"
    by (auto simp: field_value_def split: option.splits)
  then show ?thesis
    by (simp add: handleSubmit_step2_request [OF assms(1)] sent_answer_buildFormData
        map_of_stringify_questions)
qed

lemma clicks_keep_basicInfo: "basicInfo (checkbox_onClick q a s) = basicInfo s"
  by (simp add: checkbox_onClick_def field_onChange_def)


lemma social_media_step2:
  "or_empty (field_value editOnPhone socialMediaStep2) = []"
  "basicInfo socialMediaStep2 = Some applicant"
  by (simp_all add: field_value_def socialMediaStep2_def freshState_def questionDefaults_def
      socialMediaQuestions_def choice_def rating_def editOnPhone_def or_empty_def)

text \<open>
  Claim C5, as stated, fails when "No" is ticked before "Yes": both options are then
  selected, and the answer that is sent is "No, Yes", not "Yes, No".
\<close>

theorem no_then_yes_sent_in_click_order:
  "isChecked editOnPhone ''Yes''
     (checkbox_onClick editOnPhone ''Yes'' (checkbox_onClick editOnPhone ''No'' socialMediaStep2))
   \<and> isChecked editOnPhone ''No''
     (checkbox_onClick editOnPhone ''Yes'' (checkbox_onClick editOnPhone ''No'' socialMediaStep2))
   \<and> sent_answer editOnPhone (last (requests (jobSpecificForm_handleSubmit socialMediaExecutive
       (checkbox_onClick editOnPhone ''Yes'' (checkbox_onClick editOnPhone ''No'' socialMediaStep2)))))
     = Some ''No, Yes''
   \<and> sent_answer editOnPhone (last (requests (jobSpecificForm_handleSubmit socialMediaExecutive
       (checkbox_onClick editOnPhone ''Yes'' (checkbox_onClick editOnPhone ''No'' socialMediaStep2)))))
     \<noteq> Some ''Yes, No''"
proof -
  let ?s = "checkbox_onClick editOnPhone ''Yes'' (checkbox_onClick editOnPhone ''No'' socialMediaStep2)"
  have n: "\<not> str_includes ''No'' '', ''" "trim ''No'' \<noteq> []"
    by (simp_all add: trim_def is_space_def)
  have v: "field_value editOnPhone ?s = Some ''No, Yes''"
    using two_clicks [OF social_media_step2(1) _ n, of "''Yes''"] by simp
  have c: "currentValues (Some ''No, Yes'') = [''No'', ''Yes'']"
    by (simp add: currentValues_def or_empty_def split_comma_space_def trim_def is_space_def)
  have b: "basicInfo ?s = Some applicant"
    by (simp add: clicks_keep_basicInfo social_media_step2(2))
  have "sent_answer editOnPhone (last (requests (jobSpecificForm_handleSubmit socialMediaExecutive ?s)))
     = Some ''No, Yes''"
    using sent_after_clicks [OF b v] .
  then show ?thesis
    by (simp add: isChecked_def v c)
qed

text \<open>
  Claim C5, amended. Starting from a checkbox question with nothing selected, ticking
  an option \<open>a\<close> and then a different option \<open>b\<close> makes the answer \<open>a\<close>, a comma and a
  space, then \<open>b\<close>: the options in the order in which they were ticked (\<open>a\<close> being an
  option that is not blank and has no comma followed by a space in it). That string is
  what the request carries for the question. Ticking "Yes" and then "No" gives
  "Yes, No".
\<close>

theorem checkbox_click_order:
  assumes "or_empty (field_value q s) = []"
    and "a \<noteq> b" and "\<not> str_includes a '', ''" and "trim a \<noteq> []"
    and "basicInfo s = Some info"
  shows "field_value q (checkbox_onClick q b (checkbox_onClick q a s)) = Some (a @ '', '' @ b)
         \<and> sent_answer q (last (requests (jobSpecificForm_handleSubmit job
              (checkbox_onClick q b (checkbox_onClick q a s))))) = Some (a @ '', '' @ b)"
proof -
  let ?s = "checkbox_onClick q b (checkbox_onClick q a s)"
  have v: "field_value q ?s = Some (a @ '', '' @ b)"
    using assms(1-4) by (rule two_clicks)
  have "basicInfo ?s = Some info"
    by (simp add: clicks_keep_basicInfo assms(5))
  then show ?thesis
    using v sent_after_clicks by simp
qed

theorem checkbox_click_order_witness:
  "or_empty (field_value editOnPhone socialMediaStep2) = []
   \<and> ''Yes'' \<noteq> ''No'' \<and> \<not> str_includes ''Yes'' '', '' \<and> trim ''Yes'' \<noteq> []
   \<and> basicInfo socialMediaStep2 = Some applicant
   \<and> field_value editOnPhone
       (checkbox_onClick editOnPhone ''No'' (checkbox_onClick editOnPhone ''Yes'' socialMediaStep2))
     = Some ''Yes, No''
   \<and> sent_answer editOnPhone (last (requests (jobSpecificForm_handleSubmit socialMediaExecutive
       (checkbox_onClick editOnPhone ''No'' (checkbox_onClick editOnPhone ''Yes'' socialMediaStep2)))))
     = Some ''Yes, No''"
proof -
  have y: "''Yes'' \<noteq> ''No''" "\<not> str_includes ''Yes'' '', ''" "trim ''Yes'' \<noteq> []"
    by (simp_all add: trim_def is_space_def)
  show ?thesis
    using checkbox_click_order [where job = socialMediaExecutive, OF social_media_step2(1) y social_media_step2(2)]
      social_media_step2 y
    by simp
qed

lemma settle_failure:
  assumes "\<not> response_ok status"
  shows "submitApplication_settle P defaults (Response status (BodyText text)) s
         = s\<lparr>toasts := toasts s @ [failure_toast status (failure_details P text)],
             isPending := False\<rparr>"
  using assms
  by (simp add: submitApplication_settle_def mutationFn_response_def submitApplication_onError_def
      error_message_def)

text \<open>
  Claim C8. For a response whose status is not 2xx, the error toast reads
  "Failed to submit application (HTTP status). " followed by: the \<open>details\<close> property of
  the parsed body when it has one that is truthy; otherwise its \<open>error\<close> property when
  that is truthy; otherwise the raw text of the body, also when the body is not JSON.
  A property that is a string is shown as it is.
\<close>

theorem failure_surfaces_details_or_error:
  assumes "\<not> response_ok status"
  shows "(JSON_parse P text = Some (JObject fs) \<and> map_of fs ''details'' = Some j \<and> truthy j \<longrightarrow>
            toasts (submitApplication_settle P defaults (Response status (BodyText text)) s)
              = toasts s @ [failure_toast status (to_string j)])
       \<and> (JSON_parse P text = Some (JObject fs) \<and> skipped (map_of fs ''details'')
            \<and> map_of fs ''error'' = Some j \<and> truthy j \<longrightarrow>
            toasts (submitApplication_settle P defaults (Response status (BodyText text)) s)
              = toasts s @ [failure_toast status (to_string j)])
       \<and> (JSON_parse P text = Some (JObject fs) \<and> skipped (map_of fs ''details'')
            \<and> skipped (map_of fs ''error'') \<longrightarrow>
            toasts (submitApplication_settle P defaults (Response status (BodyText text)) s)
              = toasts s @ [failure_toast status text])
       \<and> (JSON_parse P text = None \<longrightarrow>
            toasts (submitApplication_settle P defaults (Response status (BodyText text)) s)
              = toasts s @ [failure_toast status text])
       \<and> to_string (JString d) = d"
  by (auto simp: settle_failure [OF assms] failure_details_def first_truthy_def skipped_def
      split: option.splits)


theorem failure_surfaces_details_or_error_witness:
  "\<not> response_ok 400 \<and> \<not> response_ok 503 \<and> \<not> response_ok 502
   \<and> map (\<lambda>t. toast_description t)
        (toasts (submitApplication_settle samplePlatform [] (Response 400 (BodyText bodyWithDetails))
           socialMediaStep2))
       = [''Failed to submit application (HTTP 400). Unknown job'']
   \<and> map (\<lambda>t. toast_description t)
        (toasts (submitApplication_settle samplePlatform [] (Response 503 (BodyText bodyWithError))
           socialMediaStep2))
       = [''Failed to submit application (HTTP 503). Storage unavailable'']
   \<and> map (\<lambda>t. toast_description t)
        (toasts (submitApplication_settle samplePlatform [] (Response 502 (BodyText bodyNotJson))
           socialMediaStep2))
       = [''Failed to submit application (HTTP 502). Bad Gateway'']"
proof -
  have ok: "\<not> response_ok 400" "\<not> response_ok 503" "\<not> response_ok 502"
    by (simp_all add: response_ok_def)
  have p: "JSON_parse samplePlatform bodyWithDetails
        = Some (JObject [(''error'', JString ''Validation failed''), (''details'', JString ''Unknown job'')])"
    "JSON_parse samplePlatform bodyWithError = Some (JObject [(''error'', JString ''Storage unavailable'')])"
    "JSON_parse samplePlatform bodyNotJson = None"
    by (simp_all add: samplePlatform_def bodyWithDetails_def bodyWithError_def bodyNotJson_def)
  have n: "show_nat 400 = ''400''" "show_nat 503 = ''503''" "show_nat 502 = ''502''"
    by (simp_all add: show_nat.simps)
  have t: "toasts socialMediaStep2 = []"
    by (simp add: socialMediaStep2_def freshState_def)
  have a: "toasts (submitApplication_settle samplePlatform [] (Response 400 (BodyText bodyWithDetails))
           socialMediaStep2) = [failure_toast 400 ''Unknown job'']"
    using failure_surfaces_details_or_error [OF ok(1), of samplePlatform bodyWithDetails
        "[(''error'', JString ''Validation failed''), (''details'', JString ''Unknown job'')]"
        "JString ''Unknown job''" "[]" socialMediaStep2] p(1) t
    by simp
  have b: "toasts (submitApplication_settle samplePlatform [] (Response 503 (BodyText bodyWithError))
           socialMediaStep2) = [failure_toast 503 ''Storage unavailable'']"
    using failure_surfaces_details_or_error [OF ok(2), of samplePlatform bodyWithError
        "[(''error'', JString ''Storage unavailable'')]"
        "JString ''Storage unavailable''" "[]" socialMediaStep2] p(2) t
    by (simp add: skipped_def)
  have c: "toasts (submitApplication_settle samplePlatform [] (Response 502 (BodyText bodyNotJson))
           socialMediaStep2) = [failure_toast 502 bodyNotJson]"
    using failure_surfaces_details_or_error [OF ok(3), of samplePlatform bodyNotJson] p(3) t
    by simp
  have d: "map (\<lambda>t. toast_description t)
        (toasts (submitApplication_settle samplePlatform [] (Response 502 (BodyText bodyNotJson))
           socialMediaStep2))
       = [''Failed to submit application (HTTP 502). Bad Gateway'']"
    unfolding c by (simp add: n bodyNotJson_def)
  show ?thesis
    using ok d by (simp add: a b n)
qed


end
